theory Spec2Isabelle
  imports Main "HOL-Library.Sublist" "HOL-Library.Char_ord" "HOL-Library.List_Lexorder"
begin

section \<open>The data model of the analytics module\<close>

text \<open>
  An entry of the play log is the object \<^verbatim>\<open>{artist, song, ts}\<close>. The two texts are
  strings. Every function of the module reads \<^verbatim>\<open>entry.ts\<close> through
  \<^verbatim>\<open>new Date(entry.ts)\<close> only, so the field \<open>ts\<close> of the model is the time value of
  that date: the milliseconds since 1970-01-01T00:00:00Z. The loader keeps only records
  that carry a timestamp, and the data model promises one that parses, so the time value
  is a number (not NaN).
\<close>

record entry =
  artist :: string
  song :: string
  ts :: int

text \<open>
  The conditions a call can end with instead of a value. \<open>TypeError\<close> is what
  JavaScript throws on reading a property of \<^verbatim>\<open>undefined\<close>; \<open>OutOfRange\<close> is the
  condition the specification names for a day index outside 0..6; \<open>NotANumber\<close> stands
  for a heatmap that holds NaN in a cell (see \<open>increment\<close>).
\<close>

datatype error = OutOfRange | TypeError | NotANumber

text \<open>
  The host: the clock that \<^verbatim>\<open>new Date()\<close> reads and the local time zone of the
  browser. \<open>localTZA t isUTC\<close> is the offset in milliseconds of local time from UTC, as
  in ECMA-262: at the UTC time value \<open>t\<close> when \<open>isUTC\<close>, at the local time value \<open>t\<close>
  otherwise.
\<close>

record host =
  now :: int
  localTZA :: "int \<Rightarrow> bool \<Rightarrow> int"

section \<open>JavaScript arrays, strings, maps and sets\<close>

text \<open>\<^verbatim>\<open>xs[i]\<close>: the element, or \<^verbatim>\<open>undefined\<close> (\<open>None\<close>) outside the array.\<close>

definition js_nth :: "'a list \<Rightarrow> int \<Rightarrow> 'a option" where
  "js_nth xs i = (if 0 \<le> i \<and> i < int (length xs) then Some (xs ! nat i) else None)"

text \<open>
  \<^verbatim>\<open>xs.slice(start, end)\<close> of arrays and strings, for integer arguments: a negative
  argument counts from the end, and both are clamped to the array.
\<close>

definition slice :: "'a list \<Rightarrow> int \<Rightarrow> int \<Rightarrow> 'a list" where
  "slice xs start end' =
     (let len = int (length xs);
          k = (if start < 0 then max (len + start) 0 else min start len);
          final = (if end' < 0 then max (len + end') 0 else min end' len)
      in take (nat (max (final - k) 0)) (drop (nat k) xs))"

text \<open>
  \<^verbatim>\<open>s.split(sep)\<close> for a separator that is not empty: the pieces between the
  occurrences of \<open>sep\<close>, found from left to right without overlap. \<open>acc\<close> holds the
  piece being read, reversed.
\<close>

function split_from :: "string \<Rightarrow> string \<Rightarrow> string \<Rightarrow> string list" where
  "split_from sep acc s =
     (if s = [] then [rev acc]
      else if sep \<noteq> [] \<and> take (length sep) s = sep
        then rev acc # split_from sep [] (drop (length sep) s)
      else split_from sep (hd s # acc) (tl s))"
  by pat_completeness auto
termination
  by (relation "measure (\<lambda>(sep, acc, s). length s)") (auto simp: neq_Nil_conv)

definition split :: "string \<Rightarrow> string \<Rightarrow> string list" where
  "split s sep = split_from sep [] s"

text \<open>
  A \<^verbatim>\<open>Map\<close> keeps its keys in the order of their first insertion, which
  \<^verbatim>\<open>Array.from(counts.entries())\<close> then reads: an association list.
  \<^verbatim>\<open>counts.set(k, v)\<close> overwrites the value of a key in place and appends a new key.
\<close>

fun map_set :: "('k \<times> 'v) list \<Rightarrow> 'k \<Rightarrow> 'v \<Rightarrow> ('k \<times> 'v) list" where
  "map_set [] k v = [(k, v)]"
| "map_set ((k', v') # m) k v = (if k' = k then (k, v) # m else (k', v') # map_set m k v)"

text \<open>\<^verbatim>\<open>counts.get(k) || 0\<close>.\<close>

definition get_or_0 :: "('k \<times> nat) list \<Rightarrow> 'k \<Rightarrow> nat" where
  "get_or_0 m k = (case map_of m k of None \<Rightarrow> 0 | Some c \<Rightarrow> c)"

text \<open>The loop \<^verbatim>\<open>counts.set(key, (counts.get(key) || 0) + 1)\<close> over the keys.\<close>

definition count_key :: "('k \<times> nat) list \<Rightarrow> 'k \<Rightarrow> ('k \<times> nat) list" where
  "count_key m k = map_set m k (get_or_0 m k + 1)"

definition count_keys :: "'k list \<Rightarrow> ('k \<times> nat) list" where
  "count_keys ks = foldl count_key [] ks"

text \<open>A \<^verbatim>\<open>Set\<close>, in insertion order; \<^verbatim>\<open>add\<close> ignores a member.\<close>

definition set_add :: "'a list \<Rightarrow> 'a \<Rightarrow> 'a list" where
  "set_add s x = (if x \<in> set s then s else s @ [x])"

text \<open>
  \<^verbatim>\<open>xs.sort(cmp)\<close>: the sort is stable, and \<open>cmp a b \<le> 0\<close> keeps \<open>a\<close> before \<open>b\<close>.
  For a consistent comparator the result is the one of this insertion sort.
\<close>

fun insort_cmp :: "('a \<Rightarrow> 'a \<Rightarrow> int) \<Rightarrow> 'a \<Rightarrow> 'a list \<Rightarrow> 'a list" where
  "insort_cmp cmp x [] = [x]"
| "insort_cmp cmp x (y # ys) = (if cmp x y \<le> 0 then x # y # ys else y # insort_cmp cmp x ys)"

definition sort_cmp :: "('a \<Rightarrow> 'a \<Rightarrow> int) \<Rightarrow> 'a list \<Rightarrow> 'a list" where
  "sort_cmp cmp xs = foldr (insort_cmp cmp) xs []"


text \<open>A number in a template literal: its decimal digits, after a minus sign if negative.\<close>

definition digit :: "nat \<Rightarrow> char" where
  "digit n = ''0123456789'' ! (n mod 10)"

fun show_nat :: "nat \<Rightarrow> string" where
  "show_nat n = (if n < 10 then [digit n] else show_nat (n div 10) @ [digit n])"

definition show_int :: "int \<Rightarrow> string" where
  "show_int i = (if i < 0 then CHR ''-'' # show_nat (nat (- i)) else show_nat (nat i))"

section \<open>Dates\<close>

text \<open>
  The time values and the calendar of ECMA-262 (section "Date Objects"), which the
  methods of \<^verbatim>\<open>Date\<close> are defined by. Time values are integers (milliseconds);
  \<^verbatim>\<open>floor(x / y)\<close> is \<open>div\<close> and the modulo of the standard is \<open>mod\<close>.
\<close>

definition msPerDay :: int where "msPerDay = 86400000"
definition msPerHour :: int where "msPerHour = 3600000"
definition msPerMinute :: int where "msPerMinute = 60000"
definition msPerSecond :: int where "msPerSecond = 1000"

definition Day :: "int \<Rightarrow> int" where
  "Day t = t div msPerDay"

definition TimeWithinDay :: "int \<Rightarrow> int" where
  "TimeWithinDay t = t mod msPerDay"

definition DaysInYear :: "int \<Rightarrow> int" where
  "DaysInYear y =
     (if y mod 4 \<noteq> 0 then 365 else if y mod 100 \<noteq> 0 then 366
      else if y mod 400 \<noteq> 0 then 365 else 366)"

definition DayFromYear :: "int \<Rightarrow> int" where
  "DayFromYear y =
     365 * (y - 1970) + (y - 1969) div 4 - (y - 1901) div 100 + (y - 1601) div 400"

text \<open>
  \<open>YearFromTime t\<close> is the largest year \<open>y\<close> whose first day is not after \<open>t\<close>. The
  search starts at a year that is not after it (a year has at most 366 days and at
  least 365) and climbs.
\<close>

function year_climb :: "int \<Rightarrow> int \<Rightarrow> int" where
  "year_climb d y = (if DayFromYear (y + 1) \<le> d then year_climb d (y + 1) else y)"
  by pat_completeness auto
termination
proof (relation "measure (\<lambda>(d, y). nat (d + 1 - DayFromYear (y + 1)))")
  show "wf (measure (\<lambda>(d, y). nat (d + 1 - DayFromYear (y + 1))))"
    by simp
next
  fix d y :: int
  assume le: "DayFromYear (y + 1) \<le> d"
  have a: "(y + 1 - 1969) div 4 \<le> (y + 1 + 1 - 1969) div 4"
    by (rule zdiv_mono1) simp_all
  have "(y + 1 + 1 - 1901) div 100 \<le> (y + 1 - 1901 + 100) div 100"
    by (rule zdiv_mono1) simp_all
  then have b: "(y + 1 + 1 - 1901) div 100 \<le> (y + 1 - 1901) div 100 + 1"
    by simp
  have c: "(y + 1 - 1601) div 400 \<le> (y + 1 + 1 - 1601) div 400"
    by (rule zdiv_mono1) simp_all
  have lin: "365 * (y + 1 - 1970) + p - q + r < 365 * (y + 1 + 1 - 1970) + p' - q' + r'"
    if "p \<le> p'" "q' \<le> q + 1" "r \<le> r'" for p p' q q' r r' :: int
    using that by simp
  have "DayFromYear (y + 1) < DayFromYear (y + 1 + 1)"
    unfolding DayFromYear_def by (rule lin [OF a b c])
  with le show "((d, y + 1), (d, y)) \<in> measure (\<lambda>(d, y). nat (d + 1 - DayFromYear (y + 1)))"
    by simp
qed

definition YearFromTime :: "int \<Rightarrow> int" where
  "YearFromTime t =
     (let d = Day t in year_climb d (1970 + (if 0 \<le> d then d div 366 else d div 365)))"

definition InLeapYear :: "int \<Rightarrow> int" where
  "InLeapYear t = (if DaysInYear (YearFromTime t) = 366 then 1 else 0)"

definition DayWithinYear :: "int \<Rightarrow> int" where
  "DayWithinYear t = Day t - DayFromYear (YearFromTime t)"

definition MonthFromTime :: "int \<Rightarrow> int" where
  "MonthFromTime t =
     (let d = DayWithinYear t; l = InLeapYear t in
      if d < 31 then 0 else if d < 59 + l then 1 else if d < 90 + l then 2
      else if d < 120 + l then 3 else if d < 151 + l then 4 else if d < 181 + l then 5
      else if d < 212 + l then 6 else if d < 243 + l then 7 else if d < 273 + l then 8
      else if d < 304 + l then 9 else if d < 334 + l then 10 else 11)"

definition DateFromTime :: "int \<Rightarrow> int" where
  "DateFromTime t =
     (let d = DayWithinYear t; l = InLeapYear t; m = MonthFromTime t in
      if m = 0 then d + 1 else if m = 1 then d - 30 else if m = 2 then d - 58 - l
      else if m = 3 then d - 89 - l else if m = 4 then d - 119 - l
      else if m = 5 then d - 150 - l else if m = 6 then d - 180 - l
      else if m = 7 then d - 211 - l else if m = 8 then d - 242 - l
      else if m = 9 then d - 272 - l else if m = 10 then d - 303 - l else d - 333 - l)"

definition WeekDay :: "int \<Rightarrow> int" where
  "WeekDay t = (Day t + 4) mod 7"





definition MakeTime :: "int \<Rightarrow> int \<Rightarrow> int \<Rightarrow> int \<Rightarrow> int" where
  "MakeTime hour' min' sec ms = hour' * msPerHour + min' * msPerMinute + sec * msPerSecond + ms"

text \<open>
  \<open>MakeDay year month date\<close>: months beyond 0..11 carry into the year, and the day
  number is the one of the first of that month plus \<open>date - 1\<close>, so a date beyond the
  month rolls over into the neighbouring months.
\<close>

definition MakeDay :: "int \<Rightarrow> int \<Rightarrow> int \<Rightarrow> int" where
  "MakeDay year month date =
     (let ym = year + month div 12;
          mn = month mod 12;
          l = (if DaysInYear ym = 366 \<and> 2 \<le> mn then 1 else 0)
      in DayFromYear ym
         + [0, 31, 59, 90, 120, 151, 181, 212, 243, 273, 304, 334] ! nat mn + l
         + date - 1)"

definition MakeDate :: "int \<Rightarrow> int \<Rightarrow> int" where
  "MakeDate day time = day * msPerDay + time"

text \<open>A time value beyond 100 000 000 days from the epoch is NaN, the invalid date.\<close>

definition TimeClip :: "int \<Rightarrow> int option" where
  "TimeClip t = (if 8640000000000000 < \<bar>t\<bar> then None else Some t)"

definition LocalTime :: "host \<Rightarrow> int \<Rightarrow> int" where
  "LocalTime h t = t + localTZA h t True"

definition UTC :: "host \<Rightarrow> int \<Rightarrow> int" where
  "UTC h t = t - localTZA h t False"

subsection \<open>The methods of Date the module calls\<close>

text \<open>
  A \<^verbatim>\<open>Date\<close> object is its time value, \<open>None\<close> for the invalid date. The getters are
  called on valid dates only (on \<^verbatim>\<open>new Date()\<close> and on entries); the setters return
  the date they leave in the object.
\<close>

definition new_Date :: "int \<Rightarrow> int option" where
  "new_Date t = Some t"

definition getDay :: "host \<Rightarrow> int \<Rightarrow> int" where
  "getDay h t = WeekDay (LocalTime h t)"


definition getDate :: "host \<Rightarrow> int \<Rightarrow> int" where
  "getDate h t = DateFromTime (LocalTime h t)"

definition getMonth :: "host \<Rightarrow> int \<Rightarrow> int" where
  "getMonth h t = MonthFromTime (LocalTime h t)"

definition getFullYear :: "host \<Rightarrow> int \<Rightarrow> int" where
  "getFullYear h t = YearFromTime (LocalTime h t)"

definition setDate :: "host \<Rightarrow> int option \<Rightarrow> int \<Rightarrow> int option" where
  "setDate h d dt =
     (case d of None \<Rightarrow> None
      | Some t0 \<Rightarrow>
          (let t = LocalTime h t0;
               newDate = MakeDate (MakeDay (YearFromTime t) (MonthFromTime t) dt) (TimeWithinDay t)
           in TimeClip (UTC h newDate)))"

definition setMonth :: "host \<Rightarrow> int option \<Rightarrow> int \<Rightarrow> int option" where
  "setMonth h d m =
     (case d of None \<Rightarrow> None
      | Some t0 \<Rightarrow>
          (let t = LocalTime h t0;
               newDate = MakeDate (MakeDay (YearFromTime t) m (DateFromTime t)) (TimeWithinDay t)
           in TimeClip (UTC h newDate)))"

definition setFullYear :: "host \<Rightarrow> int option \<Rightarrow> int \<Rightarrow> int option" where
  "setFullYear h d y =
     (let t = (case d of None \<Rightarrow> 0 | Some t0 \<Rightarrow> LocalTime h t0);
          newDate = MakeDate (MakeDay y (MonthFromTime t) (DateFromTime t)) (TimeWithinDay t)
      in TimeClip (UTC h newDate))"

definition setHours :: "host \<Rightarrow> int option \<Rightarrow> int \<Rightarrow> int \<Rightarrow> int \<Rightarrow> int \<Rightarrow> int option" where
  "setHours h d hour' min' sec ms =
     (case d of None \<Rightarrow> None
      | Some t0 \<Rightarrow>
          (let t = LocalTime h t0;
               date = MakeDate (Day t) (MakeTime hour' min' sec ms)
           in TimeClip (UTC h date)))"

text \<open>
  \<^verbatim>\<open>a >= b\<close>, \<^verbatim>\<open>a <= b\<close> and \<^verbatim>\<open>a > b\<close> on dates compare the time values, and are
  false when one of them is NaN.
\<close>

definition date_ge :: "int option \<Rightarrow> int option \<Rightarrow> bool" where
  "date_ge a b = (case (a, b) of (Some x, Some y) \<Rightarrow> y \<le> x | _ \<Rightarrow> False)"

definition date_le :: "int option \<Rightarrow> int option \<Rightarrow> bool" where
  "date_le a b = (case (a, b) of (Some x, Some y) \<Rightarrow> x \<le> y | _ \<Rightarrow> False)"




section \<open>The analytics module\<close>

subsection \<open>Filtering by time\<close>

definition filterByDateRange :: "entry list \<Rightarrow> int option \<Rightarrow> int option \<Rightarrow> entry list" where
  "filterByDateRange entries startDate endDate =
     filter (\<lambda>entry. date_ge (new_Date (ts entry)) startDate
                    \<and> date_le (new_Date (ts entry)) endDate) entries"

definition getStartOfISOWeek :: "host \<Rightarrow> int \<Rightarrow> int option" where
  "getStartOfISOWeek h date =
     (let day = getDay h date;
          diff = getDate h date - day + (if day = 0 then - 6 else 1)
      in setHours h (setDate h (new_Date date) diff) 0 0 0 0)"

definition getEndOfISOWeek :: "host \<Rightarrow> int \<Rightarrow> int option" where
  "getEndOfISOWeek h date =
     (case getStartOfISOWeek h date of
        None \<Rightarrow> None
      | Some start \<Rightarrow> setHours h (setDate h (new_Date start) (getDate h start + 6)) 23 59 59 999)"

definition getCurrentWeekData :: "host \<Rightarrow> entry list \<Rightarrow> entry list" where
  "getCurrentWeekData h entries =
     (let startOfWeek = getStartOfISOWeek h (now h);
          endOfWeek = getEndOfISOWeek h (now h)
      in filterByDateRange entries startOfWeek endOfWeek)"

text \<open>A parameter with a default is \<open>None\<close> when the caller leaves it out.\<close>

definition getLastNDays :: "host \<Rightarrow> entry list \<Rightarrow> int option \<Rightarrow> entry list" where
  "getLastNDays h entries days_opt =
     (let days = (case days_opt of None \<Rightarrow> 7 | Some d \<Rightarrow> d);
          startDate = setHours h (setDate h (new_Date (now h)) (getDate h (now h) - days)) 0 0 0 0
      in filterByDateRange entries startDate (new_Date (now h)))"

text \<open>
  The period is a string, or left out (\<open>None\<close>); \<^verbatim>\<open>!period\<close> holds for the latter and
  for the empty string.
\<close>

definition filterByTimePeriod :: "host \<Rightarrow> entry list \<Rightarrow> string option \<Rightarrow> entry list" where
  "filterByTimePeriod h entries period =
     (let since = (\<lambda>startDate. filter (\<lambda>entry. date_ge (new_Date (ts entry)) startDate) entries)
      in
      if period = Some ''all'' \<or> period = None \<or> period = Some [] then entries
      else if period = Some ''thisweek'' then getCurrentWeekData h entries
      else if period = Some ''week''
        then since (setDate h (new_Date (now h)) (getDate h (now h) - 7))
      else if period = Some ''month''
        then since (setMonth h (new_Date (now h)) (getMonth h (now h) - 1))
      else if period = Some ''3months''
        then since (setMonth h (new_Date (now h)) (getMonth h (now h) - 3))
      else if period = Some ''year''
        then since (setFullYear h (new_Date (now h)) (getFullYear h (now h) - 1))
      else entries)"

subsection \<open>Ranking and counting\<close>

text \<open>
  The rows of the rankings. A song row takes its artist and its song from the first two
  pieces of the key, \<open>None\<close> (\<^verbatim>\<open>undefined\<close>) where the piece is missing.
\<close>

record top_song =
  song_artist :: "string option"
  song_title :: "string option"
  song_count :: nat

record top_artist =
  artist_name :: string
  artist_count :: nat

definition song_key :: "entry \<Rightarrow> string" where
  "song_key e = artist e @ ''|||'' @ song e"

definition song_row :: "string \<times> nat \<Rightarrow> top_song" where
  "song_row kc =
     (let parts = split (fst kc) ''|||''
      in \<lparr>song_artist = js_nth parts 0, song_title = js_nth parts 1, song_count = snd kc\<rparr>)"

definition artist_row :: "string \<times> nat \<Rightarrow> top_artist" where
  "artist_row kc = \<lparr>artist_name = fst kc, artist_count = snd kc\<rparr>"

definition getTopSongs :: "entry list \<Rightarrow> int option \<Rightarrow> top_song list" where
  "getTopSongs entries limit_opt =
     (let limit = (case limit_opt of None \<Rightarrow> 10 | Some l \<Rightarrow> l);
          counts = count_keys (map song_key entries)
      in slice (sort_cmp (\<lambda>a b. int (song_count b) - int (song_count a)) (map song_row counts))
           0 limit)"

definition getTopArtists :: "entry list \<Rightarrow> int option \<Rightarrow> top_artist list" where
  "getTopArtists entries limit_opt =
     (let limit = (case limit_opt of None \<Rightarrow> 10 | Some l \<Rightarrow> l);
          counts = count_keys (map artist entries)
      in slice (sort_cmp (\<lambda>a b. int (artist_count b) - int (artist_count a))
                  (map artist_row counts))
           0 limit)"

definition getUniqueSongCount :: "entry list \<Rightarrow> nat" where
  "getUniqueSongCount entries = length (foldl set_add [] (map song_key entries))"

definition getUniqueArtistCount :: "entry list \<Rightarrow> nat" where
  "getUniqueArtistCount entries = length (foldl set_add [] (map artist entries))"

subsection \<open>Buckets\<close>

record bucket =
  hour :: string
  count :: nat







subsection \<open>The latest entry, and display\<close>



text \<open>The argument is the time value of \<^verbatim>\<open>new Date(timestamp)\<close>.\<close>

definition formatTimeAgo :: "host \<Rightarrow> int \<Rightarrow> string" where
  "formatTimeAgo h timestamp =
     (let diffMs = now h - timestamp;
          diffMins = diffMs div 60000;
          diffHours = diffMs div 3600000;
          diffDays = diffMs div 86400000
      in if diffMins < 1 then ''Just now''
         else if diffMins = 1 then ''1 minute ago''
         else if diffMins < 60 then show_int diffMins @ '' minutes ago''
         else if diffHours = 1 then ''1 hour ago''
         else if diffHours < 24 then show_int diffHours @ '' hours ago''
         else if diffDays = 1 then ''1 day ago''
         else show_int diffDays @ '' days ago'')"

text \<open>
  \<^verbatim>\<open>days[dayIndex]\<close>: the function has no statement that throws, so its outcome is
  always a value, \<^verbatim>\<open>undefined\<close> (\<open>None\<close>) outside the array.
\<close>

definition getDayName :: "int \<Rightarrow> error + string option" where
  "getDayName dayIndex =
     (let days = [''Mon'', ''Tue'', ''Wed'', ''Thu'', ''Fri'', ''Sat'', ''Sun'']
      in Inr (js_nth days dayIndex))"

section \<open>Notions of the specification\<close>

text \<open>
  The distinct keys of a list in the order in which they are first met, and the position
  at which a key is first met.
\<close>

fun first_occurrences :: "'a list \<Rightarrow> 'a list" where
  "first_occurrences [] = []"
| "first_occurrences (x # xs) = x # filter (\<lambda>y. y \<noteq> x) (first_occurrences xs)"

definition first_index :: "'a list \<Rightarrow> 'a \<Rightarrow> nat" where
  "first_index xs x = length (takeWhile (\<lambda>y. y \<noteq> x) xs)"

text \<open>
  The order of a ranking: the greater count first and, among equal counts, the key that
  was seen first.
\<close>

definition ranks_before :: "('a \<Rightarrow> nat) \<Rightarrow> ('a \<Rightarrow> nat) \<Rightarrow> 'a \<Rightarrow> 'a \<Rightarrow> bool" where
  "ranks_before cnt seen a b = (cnt b < cnt a \<or> (cnt a = cnt b \<and> seen a < seen b))"

text \<open>The groups of a list of keys, sorted as the rankings sort their rows.\<close>

definition ranked :: "'k list \<Rightarrow> ('k \<times> nat) list" where
  "ranked ks = sort_cmp (\<lambda>a b. int (snd b) - int (snd a)) (count_keys ks)"

section \<open>Properties\<close>

subsection \<open>Day names\<close>

text \<open>
  C1, as the specification states it, fails: outside 0..6 \<open>getDayName\<close> returns
  \<^verbatim>\<open>undefined\<close> and raises nothing. At 7:
\<close>

theorem getDayName_undefined_at_7:
  "getDayName 7 = Inr None \<and> getDayName 7 \<noteq> Inl OutOfRange"
  by (simp add: getDayName_def js_nth_def)

text \<open>
  C1, amended: for every integer day index outside 0..6 \<open>getDayName\<close> returns
  \<^verbatim>\<open>undefined\<close> without failing, and for 0..6 it returns the name of the day, from
  "Mon" at 0 to "Sun" at 6.
\<close>

theorem getDayName_names:
  "(dayIndex < 0 \<or> 6 < dayIndex \<longrightarrow> getDayName dayIndex = Inr None)
   \<and> getDayName 0 = Inr (Some ''Mon'') \<and> getDayName 1 = Inr (Some ''Tue'')
   \<and> getDayName 2 = Inr (Some ''Wed'') \<and> getDayName 3 = Inr (Some ''Thu'')
   \<and> getDayName 4 = Inr (Some ''Fri'') \<and> getDayName 5 = Inr (Some ''Sat'')
   \<and> getDayName 6 = Inr (Some ''Sun'')"
  by (auto simp add: getDayName_def js_nth_def)

theorem getDayName_names_witness:
  "getDayName (- 1) = Inr None \<and> getDayName 6 = Inr (Some ''Sun'')"
  using getDayName_names [of "- 1"] by simp

subsection \<open>Relative time\<close>

text \<open>
  C10: for a timestamp after "now" the floored difference in minutes is below 1 and
  \<open>formatTimeAgo\<close> returns "Just now".
\<close>

theorem formatTimeAgo_future:
  "now h < timestamp \<Longrightarrow>
     (now h - timestamp) div 60000 < 1 \<and> formatTimeAgo h timestamp = ''Just now''"
proof -
  assume "now h < timestamp"
  then have "now h - timestamp < 0" by simp
  then have "(now h - timestamp) div 60000 < 0"
    by (simp add: div_neg_pos_less0)
  then show ?thesis
    by (simp add: formatTimeAgo_def Let_def)
qed

theorem formatTimeAgo_future_witness:
  "now \<lparr>now = 1000, localTZA = (\<lambda>t u. 0)\<rparr> < 61000
   \<and> formatTimeAgo \<lparr>now = 1000, localTZA = (\<lambda>t u. 0)\<rparr> 61000 = ''Just now''"
  using formatTimeAgo_future [of "\<lparr>now = 1000, localTZA = (\<lambda>t u. 0)\<rparr>" 61000] by simp

subsection \<open>Filters\<close>

text \<open>
  C7: for a period that is none of the five window tokens (so: "all", the empty string,
  a period left out, or any unknown token) \<open>filterByTimePeriod\<close> returns the entries
  as they are.
\<close>

theorem filterByTimePeriod_identity:
  "period \<notin> {Some ''thisweek'', Some ''week'', Some ''month'', Some ''3months'', Some ''year''}
   \<Longrightarrow> filterByTimePeriod h entries period = entries"
  by (simp add: filterByTimePeriod_def)

theorem filterByTimePeriod_identity_witness:
  "filterByTimePeriod \<lparr>now = 1000, localTZA = (\<lambda>t u. 0)\<rparr>
      [\<lparr>artist = ''A'', song = ''X'', ts = 5\<rparr>] (Some ''decade'')
   = [\<lparr>artist = ''A'', song = ''X'', ts = 5\<rparr>]"
  using filterByTimePeriod_identity [of "Some ''decade''" "\<lparr>now = 1000, localTZA = (\<lambda>t u. 0)\<rparr>"
      "[\<lparr>artist = ''A'', song = ''X'', ts = 5\<rparr>]"]
  by simp

text \<open>
  C9: the filters only read the collection (\<^verbatim>\<open>Array.prototype.filter\<close> builds a new
  array), so the model takes it as a value; what each returns is a subsequence of it,
  the kept entries in their order. \<open>filterByDateRange\<close> keeps exactly the entries from
  the start date to the end date, both included, and none when a date is invalid.
\<close>

theorem filters_keep_order:
  "subseq (filterByDateRange entries startDate endDate) entries
   \<and> subseq (getLastNDays h entries days) entries
   \<and> subseq (getCurrentWeekData h entries) entries
   \<and> subseq (filterByTimePeriod h entries period) entries
   \<and> filterByDateRange entries (Some start) (Some end')
       = filter (\<lambda>entry. start \<le> ts entry \<and> ts entry \<le> end') entries
   \<and> filterByDateRange entries None endDate = []
   \<and> filterByDateRange entries startDate None = []"
proof -
  have a: "\<And>s e. subseq (filterByDateRange entries s e) entries"
    by (simp add: filterByDateRange_def)
  have b: "subseq (filterByTimePeriod h entries period) entries"
    using a by (simp add: filterByTimePeriod_def Let_def getCurrentWeekData_def)
  have c: "filterByDateRange entries (Some start) (Some end')
       = filter (\<lambda>entry. start \<le> ts entry \<and> ts entry \<le> end') entries"
    by (simp add: filterByDateRange_def date_ge_def date_le_def new_Date_def)
  have d: "filterByDateRange entries None endDate = []"
    by (simp add: filterByDateRange_def date_ge_def date_le_def new_Date_def)
  have e: "filterByDateRange entries startDate None = []"
    by (simp add: filterByDateRange_def date_ge_def date_le_def new_Date_def split: option.splits)
  show ?thesis
    using a b c d e by (simp add: getLastNDays_def getCurrentWeekData_def Let_def)
qed

subsection \<open>The latest entry\<close>




subsection \<open>Counting keys and sorting\<close>

lemma set_first_occurrences: "set (first_occurrences xs) = set xs"
  by (induction xs) auto

lemma distinct_first_occurrences: "distinct (first_occurrences xs)"
  by (induction xs) (auto simp: set_first_occurrences)

lemma length_first_occurrences: "length (first_occurrences xs) = card (set xs)"
  using distinct_card [OF distinct_first_occurrences [of xs]]
  by (simp add: set_first_occurrences)

lemma first_occurrences_order:
  "sorted_wrt (\<lambda>a b. first_index xs a < first_index xs b) (first_occurrences xs)"
proof (induction xs)
  case Nil
  show ?case by simp
next
  case (Cons x xs)
  have "sorted_wrt (\<lambda>a b. first_index xs a < first_index xs b)
          (filter (\<lambda>y. y \<noteq> x) (first_occurrences xs))"
    using Cons.IH by (rule sorted_wrt_filter)
  then have "sorted_wrt (\<lambda>a b. first_index (x # xs) a < first_index (x # xs) b)
          (filter (\<lambda>y. y \<noteq> x) (first_occurrences xs))"
    by (rule sorted_wrt_mono_rel [rotated]) (auto simp: first_index_def)
  then show ?case
    by (auto simp: first_index_def)
qed

lemma map_fst_map_set:
  "map fst (map_set m k v) = (if k \<in> fst ` set m then map fst m else map fst m @ [k])"
  by (induction m) force+

lemma map_of_map_set: "map_of (map_set m k v) = (map_of m)(k \<mapsto> v)"
  by (induction m) auto

lemma keys_foldl_count_key:
  "map fst (foldl count_key m ks)
     = map fst m @ filter (\<lambda>k. k \<notin> fst ` set m) (first_occurrences ks)"
proof (induction ks arbitrary: m)
  case Nil
  show ?case by simp
next
  case (Cons x xs)
  show ?case
  proof (cases "x \<in> fst ` set m")
    case True
    then have keys: "map fst (count_key m x) = map fst m"
      by (simp add: count_key_def map_fst_map_set)
    then have "fst ` set (count_key m x) = fst ` set m"
      by (metis list.set_map)
    moreover have "filter (\<lambda>k. k \<notin> fst ` set m) (filter (\<lambda>y. y \<noteq> x) (first_occurrences xs))
        = filter (\<lambda>k. k \<notin> fst ` set m) (first_occurrences xs)"
      using True by (auto intro: filter_cong)
    ultimately show ?thesis
      using True keys by (simp add: Cons.IH)
  next
    case False
    then have keys: "map fst (count_key m x) = map fst m @ [x]"
      by (simp add: count_key_def map_fst_map_set)
    then have "set (map fst (count_key m x)) = set (map fst m @ [x])"
      by simp
    then have img: "fst ` set (count_key m x) = insert x (fst ` set m)"
      by simp
    have "filter (\<lambda>k. k \<notin> insert x (fst ` set m)) (first_occurrences xs)
        = filter (\<lambda>k. k \<notin> fst ` set m) (filter (\<lambda>y. y \<noteq> x) (first_occurrences xs))"
      by (auto intro: filter_cong)
    then show ?thesis
      using False keys img by (simp add: Cons.IH)
  qed
qed

lemma get_or_0_count_key:
  "get_or_0 (count_key m x) k = (if k = x then get_or_0 m x + 1 else get_or_0 m k)"
  by (simp add: get_or_0_def count_key_def map_of_map_set)

lemma map_of_foldl_count_key:
  "map_of (foldl count_key m ks) k
     = (if k \<in> set ks then Some (get_or_0 m k + count_list ks k) else map_of m k)"
proof (induction ks arbitrary: m)
  case Nil
  show ?case by simp
next
  case (Cons x xs)
  show ?case
    by (simp add: Cons.IH get_or_0_count_key) (simp add: count_key_def map_of_map_set)
qed

lemma alist_by_keys:
  "distinct (map fst m) \<Longrightarrow> map (\<lambda>k. (k, the (map_of m k))) (map fst m) = m"
proof (induction m)
  case Nil
  show ?case by simp
next
  case (Cons p m)
  have "fst p \<notin> set (map fst m)"
    using Cons.prems by simp
  then have "\<And>k. k \<in> set (map fst m) \<Longrightarrow> map_of (p # m) k = map_of m k"
    by (cases p) auto
  then have "map (\<lambda>k. (k, the (map_of (p # m) k))) (map fst m)
      = map (\<lambda>k. (k, the (map_of m k))) (map fst m)"
    by (intro map_cong) simp_all
  also have "\<dots> = m"
    using Cons by simp
  finally have tail: "map (\<lambda>k. (k, the (map_of (p # m) k))) (map fst m) = m" .
  have head: "(fst p, the (map_of (p # m) (fst p))) = p"
    by (cases p) simp
  show ?case
    by (simp only: list.map head tail)
qed

lemma count_keys_eq:
  "count_keys ks = map (\<lambda>k. (k, count_list ks k)) (first_occurrences ks)"
proof -
  have keys: "map fst (count_keys ks) = first_occurrences ks"
    by (simp add: count_keys_def keys_foldl_count_key)
  then have "distinct (map fst (count_keys ks))"
    by (simp add: distinct_first_occurrences)
  then have "count_keys ks
      = map (\<lambda>k. (k, the (map_of (count_keys ks) k))) (first_occurrences ks)"
    using alist_by_keys [of "count_keys ks"] keys by simp
  also have "\<dots> = map (\<lambda>k. (k, count_list ks k)) (first_occurrences ks)"
    by (intro map_cong)
      (simp_all add: count_keys_def map_of_foldl_count_key set_first_occurrences get_or_0_def)
  finally show ?thesis .
qed

lemma set_insort_cmp: "set (insort_cmp c x ys) = insert x (set ys)"
  by (induction ys) auto

lemma set_sort_cmp: "set (sort_cmp c xs) = set xs"
  by (induction xs) (simp_all add: sort_cmp_def set_insort_cmp)

lemma length_insort_cmp: "length (insort_cmp c x ys) = Suc (length ys)"
  by (induction ys) auto

lemma length_sort_cmp: "length (sort_cmp c xs) = length xs"
  by (induction xs) (simp_all add: sort_cmp_def length_insort_cmp)

lemma insort_cmp_map:
  "insort_cmp c (f x) (map f ys) = map f (insort_cmp (\<lambda>a b. c (f a) (f b)) x ys)"
  by (induction ys) auto

lemma sort_cmp_map:
  "sort_cmp c (map f xs) = map f (sort_cmp (\<lambda>a b. c (f a) (f b)) xs)"
  by (induction xs) (simp_all add: sort_cmp_def insort_cmp_map)

lemma insort_cmp_ranks:
  assumes "sorted_wrt (ranks_before cnt seen) ys" and "\<forall>y\<in>set ys. seen x < seen y"
  shows "sorted_wrt (ranks_before cnt seen) (insort_cmp (\<lambda>a b. int (cnt b) - int (cnt a)) x ys)"
  using assms
proof (induction ys)
  case Nil
  show ?case by simp
next
  case (Cons y ys)
  show ?case
  proof (cases "cnt y \<le> cnt x")
    case True
    have "\<forall>z\<in>set (y # ys). ranks_before cnt seen x z"
    proof
      fix z assume z: "z \<in> set (y # ys)"
      then have "cnt z \<le> cnt y"
        using Cons.prems(1) by (auto simp: ranks_before_def)
      then show "ranks_before cnt seen x z"
        using True z Cons.prems(2) by (auto simp: ranks_before_def)
    qed
    then show ?thesis
      using True Cons.prems(1) by simp
  next
    case False
    then have "ranks_before cnt seen y x"
      by (simp add: ranks_before_def)
    then show ?thesis
      using False Cons by (auto simp: set_insort_cmp)
  qed
qed

lemma sort_cmp_ranks:
  "sorted_wrt (\<lambda>a b. seen a < seen b) xs \<Longrightarrow>
   sorted_wrt (ranks_before cnt seen) (sort_cmp (\<lambda>a b. int (cnt b) - int (cnt a)) xs)"
proof (induction xs)
  case Nil
  show ?case by (simp add: sort_cmp_def)
next
  case (Cons x xs)
  then have "sorted_wrt (ranks_before cnt seen) (sort_cmp (\<lambda>a b. int (cnt b) - int (cnt a)) xs)"
    by simp
  moreover have "\<forall>y\<in>set (sort_cmp (\<lambda>a b. int (cnt b) - int (cnt a)) xs). seen x < seen y"
    using Cons.prems by (simp add: set_sort_cmp)
  ultimately show ?case
    using insort_cmp_ranks [of cnt seen "sort_cmp (\<lambda>a b. int (cnt b) - int (cnt a)) xs" x]
    by (simp add: sort_cmp_def)
qed

lemma slice_0: "slice xs 0 e = take (nat (if e < 0 then int (length xs) + e else e)) xs"
  by (simp add: slice_def Let_def max_def min_def)


lemma slice_map: "slice (map f xs) s e = map f (slice xs s e)"
  by (simp add: slice_def Let_def take_map drop_map)

lemma getTopArtists_ranked:
  "getTopArtists entries limit
     = map artist_row (slice (ranked (map artist entries)) 0 (case limit of None \<Rightarrow> 10 | Some l \<Rightarrow> l))"
  by (simp add: getTopArtists_def ranked_def sort_cmp_map slice_map artist_row_def)

lemma getTopSongs_ranked:
  "getTopSongs entries limit
     = map song_row (slice (ranked (map song_key entries)) 0 (case limit of None \<Rightarrow> 10 | Some l \<Rightarrow> l))"
  by (simp add: getTopSongs_def ranked_def sort_cmp_map slice_map song_row_def Let_def)

lemma length_ranked: "length (ranked ks) = card (set ks)"
  by (simp add: ranked_def length_sort_cmp count_keys_eq length_first_occurrences)

lemma set_ranked: "set (ranked ks) = (\<lambda>k. (k, count_list ks k)) ` set ks"
  by (simp add: ranked_def set_sort_cmp count_keys_eq set_first_occurrences)

lemma sorted_ranked:
  "sorted_wrt (ranks_before snd (\<lambda>g. first_index ks (fst g))) (ranked ks)"
  unfolding ranked_def
  by (rule sort_cmp_ranks) (simp add: count_keys_eq sorted_wrt_map first_occurrences_order)

lemma sorted_slice_ranked:
  "sorted_wrt (ranks_before snd (\<lambda>g. first_index ks (fst g))) (slice (ranked ks) 0 e)"
  by (simp add: slice_0 sorted_wrt_take sorted_ranked)

lemma set_slice_subset: "set (slice xs s e) \<subseteq> set xs"
  unfolding slice_def Let_def by (meson set_take_subset set_drop_subset subset_trans)

lemma length_slice_ranked:
  "length (slice (ranked ks) 0 e)
     = (if e < 0 then card (set ks) - nat (- e) else min (nat e) (card (set ks)))"
  by (auto simp add: slice_0 length_ranked)

lemma slice_all: "int (length xs) \<le> e \<Longrightarrow> slice xs 0 e = xs"
  by (simp add: slice_0)


text \<open>The scenario of the specification: two plays of one song and one of another.\<close>

lemma scenario_rankings:
  "getTopSongs [\<lparr>artist = ''A'', song = ''X'', ts = 1704103200000\<rparr>,
      \<lparr>artist = ''A'', song = ''X'', ts = 1704106800000\<rparr>,
      \<lparr>artist = ''B'', song = ''Y'', ts = 1704105000000\<rparr>] (Some 10)
     = [\<lparr>song_artist = Some ''A'', song_title = Some ''X'', song_count = 2\<rparr>,
        \<lparr>song_artist = Some ''B'', song_title = Some ''Y'', song_count = 1\<rparr>]
   \<and> getUniqueArtistCount [\<lparr>artist = ''A'', song = ''X'', ts = 1704103200000\<rparr>,
      \<lparr>artist = ''A'', song = ''X'', ts = 1704106800000\<rparr>,
      \<lparr>artist = ''B'', song = ''Y'', ts = 1704105000000\<rparr>] = 2"
  by code_simp

subsection \<open>The length of the rankings\<close>

text \<open>
  C2, as the specification states it, fails for a negative limit: \<^verbatim>\<open>slice(0, limit)\<close>
  then counts the end from the back, so limit -1 drops the last group only.
\<close>

theorem rankings_negative_limit:
  "getTopSongs [\<lparr>artist = ''A'', song = ''X'', ts = 1\<rparr>, \<lparr>artist = ''B'', song = ''Y'', ts = 2\<rparr>]
      (Some (- 1))
     = [\<lparr>song_artist = Some ''A'', song_title = Some ''X'', song_count = 1\<rparr>]
   \<and> getTopArtists [\<lparr>artist = ''A'', song = ''X'', ts = 1\<rparr>, \<lparr>artist = ''B'', song = ''Y'', ts = 2\<rparr>]
      (Some (- 1))
     = [\<lparr>artist_name = ''A'', artist_count = 1\<rparr>]"
  by code_simp

text \<open>
  C2, amended: \<open>getTopSongs\<close> and \<open>getTopArtists\<close> return an empty sequence when the
  entries are empty or the limit is 0; for a positive limit the length of the result is
  the minimum of the limit and the number of distinct keys; for a negative limit it is
  the number of distinct keys minus the absolute value of the limit (empty when that is
  not positive); and when the limit is at least the number of distinct keys every group
  is returned, with its count. The keys of the songs are the strings
  \<^verbatim>\<open>artist|||song\<close>, of which there are at most as many as distinct pairs.
\<close>

theorem rankings_length:
  "(entries = [] \<or> limit = 0 \<longrightarrow>
      getTopSongs entries (Some limit) = [] \<and> getTopArtists entries (Some limit) = [])
   \<and> (0 < limit \<longrightarrow>
      length (getTopSongs entries (Some limit))
        = min (nat limit) (card (song_key ` set entries))
      \<and> length (getTopArtists entries (Some limit))
        = min (nat limit) (card (artist ` set entries)))
   \<and> (limit < 0 \<longrightarrow>
      length (getTopSongs entries (Some limit))
        = card (song_key ` set entries) - nat (- limit)
      \<and> length (getTopArtists entries (Some limit))
        = card (artist ` set entries) - nat (- limit))
   \<and> (int (card (song_key ` set entries)) \<le> limit \<longrightarrow>
      set (getTopSongs entries (Some limit))
        = (\<lambda>k. song_row (k, count_list (map song_key entries) k)) ` song_key ` set entries)
   \<and> (int (card (artist ` set entries)) \<le> limit \<longrightarrow>
      set (getTopArtists entries (Some limit))
        = (\<lambda>k. \<lparr>artist_name = k, artist_count = count_list (map artist entries) k\<rparr>)
            ` artist ` set entries)
   \<and> card (song_key ` set entries) \<le> card ((\<lambda>e. (artist e, song e)) ` set entries)"
proof -
  let ?sk = "map song_key entries" and ?ak = "map artist entries"
  have ls: "length (getTopSongs entries (Some limit))
      = (if limit < 0 then card (set ?sk) - nat (- limit) else min (nat limit) (card (set ?sk)))"
    by (simp only: getTopSongs_ranked length_map length_slice_ranked option.case)
  have la: "length (getTopArtists entries (Some limit))
      = (if limit < 0 then card (set ?ak) - nat (- limit) else min (nat limit) (card (set ?ak)))"
    by (simp only: getTopArtists_ranked length_map length_slice_ranked option.case)
  have empty: "entries = [] \<or> limit = 0 \<longrightarrow>
      getTopSongs entries (Some limit) = [] \<and> getTopArtists entries (Some limit) = []"
    using ls la by (auto simp del: length_0_conv simp add: length_0_conv [symmetric])
  have pos: "0 < limit \<longrightarrow>
      length (getTopSongs entries (Some limit)) = min (nat limit) (card (song_key ` set entries))
      \<and> length (getTopArtists entries (Some limit)) = min (nat limit) (card (artist ` set entries))"
    using ls la by simp
  have neg: "limit < 0 \<longrightarrow>
      length (getTopSongs entries (Some limit)) = card (song_key ` set entries) - nat (- limit)
      \<and> length (getTopArtists entries (Some limit)) = card (artist ` set entries) - nat (- limit)"
    using ls la by simp
  have alls: "int (card (song_key ` set entries)) \<le> limit \<longrightarrow>
      set (getTopSongs entries (Some limit))
        = (\<lambda>k. song_row (k, count_list (map song_key entries) k)) ` song_key ` set entries"
  proof
    assume "int (card (song_key ` set entries)) \<le> limit"
    then have "slice (ranked ?sk) 0 limit = ranked ?sk"
      by (intro slice_all) (simp add: length_ranked)
    then show "set (getTopSongs entries (Some limit))
        = (\<lambda>k. song_row (k, count_list (map song_key entries) k)) ` song_key ` set entries"
      by (simp add: getTopSongs_ranked set_ranked image_image)
  qed
  have alla: "int (card (artist ` set entries)) \<le> limit \<longrightarrow>
      set (getTopArtists entries (Some limit))
        = (\<lambda>k. \<lparr>artist_name = k, artist_count = count_list (map artist entries) k\<rparr>)
            ` artist ` set entries"
  proof
    assume "int (card (artist ` set entries)) \<le> limit"
    then have "slice (ranked ?ak) 0 limit = ranked ?ak"
      by (intro slice_all) (simp add: length_ranked)
    then show "set (getTopArtists entries (Some limit))
        = (\<lambda>k. \<lparr>artist_name = k, artist_count = count_list (map artist entries) k\<rparr>)
            ` artist ` set entries"
      by (simp add: getTopArtists_ranked set_ranked image_image artist_row_def)
  qed
  have "song_key ` set entries
      = (\<lambda>p. fst p @ ''|||'' @ snd p) ` (\<lambda>e. (artist e, song e)) ` set entries"
    by (simp add: image_image song_key_def)
  then have pairs: "card (song_key ` set entries) \<le> card ((\<lambda>e. (artist e, song e)) ` set entries)"
    by (simp add: card_image_le)
  show ?thesis
    using empty pos neg alls alla pairs by blast
qed

theorem rankings_length_witness:
  "length (getTopSongs [\<lparr>artist = ''A'', song = ''X'', ts = 1\<rparr>, \<lparr>artist = ''B'', song = ''Y'', ts = 2\<rparr>,
      \<lparr>artist = ''A'', song = ''X'', ts = 3\<rparr>] (Some 5)) = 2
   \<and> length (getTopArtists [\<lparr>artist = ''A'', song = ''X'', ts = 1\<rparr>, \<lparr>artist = ''B'', song = ''Y'', ts = 2\<rparr>,
      \<lparr>artist = ''A'', song = ''X'', ts = 3\<rparr>] (Some 1)) = 1"
proof -
  let ?es = "[\<lparr>artist = ''A'', song = ''X'', ts = 1\<rparr>, \<lparr>artist = ''B'', song = ''Y'', ts = 2\<rparr>,
      \<lparr>artist = ''A'', song = ''X'', ts = 3\<rparr>]"
  have s: "card (song_key ` set ?es) = 2"
    by (simp add: song_key_def card_insert_if)
  have a: "card (artist ` set ?es) = 2"
    by (simp add: card_insert_if)
  show ?thesis
    using rankings_length [of ?es 5] rankings_length [of ?es 1] s a by simp
qed

subsection \<open>Distinct songs\<close>

text \<open>
  C3, as the specification states it, fails: the songs are told apart by the string
  \<^verbatim>\<open>artist|||song\<close>, and two different pairs can give the same string.
\<close>

theorem unique_song_count_collision:
  "getUniqueSongCount [\<lparr>artist = ''a|'', song = ''b'', ts = 1\<rparr>, \<lparr>artist = ''a'', song = ''|b'', ts = 2\<rparr>] = 1
   \<and> card ((\<lambda>e. (artist e, song e))
          ` set [\<lparr>artist = ''a|'', song = ''b'', ts = 1\<rparr>, \<lparr>artist = ''a'', song = ''|b'', ts = 2\<rparr>]) = 2"
  by (simp add: getUniqueSongCount_def song_key_def set_add_def card_insert_if)

lemma set_foldl_set_add: "set (foldl set_add s xs) = set s \<union> set xs"
  by (induction xs arbitrary: s) (auto simp: set_add_def)

lemma distinct_foldl_set_add: "distinct s \<Longrightarrow> distinct (foldl set_add s xs)"
  by (induction xs arbitrary: s) (auto simp: set_add_def)

lemma length_foldl_set_add: "length (foldl set_add [] xs) = card (set xs)"
  using distinct_card [OF distinct_foldl_set_add [of "[]" xs]]
  by (simp add: set_foldl_set_add)

lemma song_key_inj:
  assumes "CHR ''|'' \<notin> set (artist e1)" and "CHR ''|'' \<notin> set (artist e2)"
    and "song_key e1 = song_key e2"
  shows "artist e1 = artist e2 \<and> song e1 = song e2"
proof -
  have tw: "takeWhile (\<lambda>c. c \<noteq> CHR ''|'') (song_key e) = artist e"
    if "CHR ''|'' \<notin> set (artist e)" for e
  proof -
    have "takeWhile (\<lambda>c. c \<noteq> CHR ''|'') (artist e @ ''|||'' @ song e)
        = artist e @ takeWhile (\<lambda>c. c \<noteq> CHR ''|'') (''|||'' @ song e)"
      using that by (intro takeWhile_append2) auto
    then show ?thesis
      by (simp add: song_key_def)
  qed
  have a: "artist e1 = artist e2"
    using tw [OF assms(1)] tw [OF assms(2)] assms(3) by simp
  then show ?thesis
    using assms(3) by (simp add: song_key_def)
qed

text \<open>
  C3, amended: \<open>getUniqueSongCount\<close> is the number of distinct strings
  \<^verbatim>\<open>artist|||song\<close> (compared exactly: no trimming, no case folding). Where no artist
  contains the character \<^verbatim>\<open>|\<close>, two entries have the same string if and only if
  their artists and their songs are equal, and the count is the number of distinct
  pairs.
\<close>

theorem unique_song_count_keys:
  "getUniqueSongCount entries = card (song_key ` set entries)
   \<and> ((\<forall>e\<in>set entries. CHR ''|'' \<notin> set (artist e)) \<longrightarrow>
        getUniqueSongCount entries = card ((\<lambda>e. (artist e, song e)) ` set entries))
   \<and> (\<forall>e1 e2. CHR ''|'' \<notin> set (artist e1) \<and> CHR ''|'' \<notin> set (artist e2) \<longrightarrow>
        (song_key e1 = song_key e2 \<longleftrightarrow> artist e1 = artist e2 \<and> song e1 = song e2))"
proof -
  have keys: "getUniqueSongCount entries = card (song_key ` set entries)"
    by (simp add: getUniqueSongCount_def length_foldl_set_add)
  have iff: "\<forall>e1 e2. CHR ''|'' \<notin> set (artist e1) \<and> CHR ''|'' \<notin> set (artist e2) \<longrightarrow>
        (song_key e1 = song_key e2 \<longleftrightarrow> artist e1 = artist e2 \<and> song e1 = song e2)"
    using song_key_inj by (metis song_key_def)
  have pairs: "getUniqueSongCount entries = card ((\<lambda>e. (artist e, song e)) ` set entries)"
    if clean: "\<forall>e\<in>set entries. CHR ''|'' \<notin> set (artist e)"
  proof -
    let ?P = "(\<lambda>e. (artist e, song e)) ` set entries"
    have "inj_on (\<lambda>p. fst p @ ''|||'' @ snd p) ?P"
    proof (rule inj_onI)
      fix p q assume p: "p \<in> ?P" and q: "q \<in> ?P"
        and eq: "fst p @ ''|||'' @ snd p = fst q @ ''|||'' @ snd q"
      from p obtain e1 where e1: "e1 \<in> set entries" "p = (artist e1, song e1)" by auto
      from q obtain e2 where e2: "e2 \<in> set entries" "q = (artist e2, song e2)" by auto
      have "song_key e1 = song_key e2"
        using eq e1 e2 by (simp add: song_key_def)
      then show "p = q"
        using song_key_inj [of e1 e2] clean e1 e2 by simp
    qed
    then have "card ((\<lambda>p. fst p @ ''|||'' @ snd p) ` ?P) = card ?P"
      by (rule card_image)
    moreover have "(\<lambda>p. fst p @ ''|||'' @ snd p) ` ?P = song_key ` set entries"
      by (simp add: image_image song_key_def)
    ultimately show ?thesis
      using keys by simp
  qed
  show ?thesis
    using keys iff pairs by blast
qed

theorem unique_song_count_keys_witness:
  "getUniqueSongCount [\<lparr>artist = ''A'', song = ''X|||'', ts = 1\<rparr>, \<lparr>artist = ''B'', song = ''Y'', ts = 2\<rparr>,
      \<lparr>artist = ''A'', song = ''X|||'', ts = 3\<rparr>]
   = card {(''A'', ''X|||''), (''B'', ''Y'')}"
  using unique_song_count_keys [of "[\<lparr>artist = ''A'', song = ''X|||'', ts = 1\<rparr>,
      \<lparr>artist = ''B'', song = ''Y'', ts = 2\<rparr>, \<lparr>artist = ''A'', song = ''X|||'', ts = 3\<rparr>]"]
  by (simp add: song_key_def card_insert_if)


subsection \<open>The order of the rankings\<close>

lemma ranks_nth:
  assumes "sorted_wrt (ranks_before cnt seen) xs" and "i < j" and "j < length xs"
  shows "cnt (xs ! j) \<le> cnt (xs ! i)
     \<and> (cnt (xs ! j) = cnt (xs ! i) \<longrightarrow> seen (xs ! i) < seen (xs ! j))"
proof -
  have "ranks_before cnt seen (xs ! i) (xs ! j)"
    using assms by (simp add: sorted_wrt_iff_nth_less)
  then show ?thesis
    by (auto simp: ranks_before_def)
qed

text \<open>
  C4: the rows of \<open>getTopSongs\<close> and \<open>getTopArtists\<close> are in non-increasing order of
  count, and of two groups with the same count the one whose key is met first in the
  entries comes first. The song rows are built from groups (a key and the number of
  its entries) that are in this order; an artist row carries its key.
\<close>

theorem rankings_order:
  "(\<exists>groups. getTopSongs entries limit = map song_row groups
      \<and> (\<forall>g\<in>set groups. fst g \<in> song_key ` set entries
            \<and> snd g = count_list (map song_key entries) (fst g))
      \<and> (\<forall>i j. i < j \<and> j < length groups \<longrightarrow>
            snd (groups ! j) \<le> snd (groups ! i)
            \<and> (snd (groups ! j) = snd (groups ! i) \<longrightarrow>
                  first_index (map song_key entries) (fst (groups ! i))
                    < first_index (map song_key entries) (fst (groups ! j)))))
   \<and> (\<forall>i j. i < j \<and> j < length (getTopSongs entries limit) \<longrightarrow>
         song_count (getTopSongs entries limit ! j) \<le> song_count (getTopSongs entries limit ! i))
   \<and> (\<forall>i j. i < j \<and> j < length (getTopArtists entries limit) \<longrightarrow>
         artist_count (getTopArtists entries limit ! j) \<le> artist_count (getTopArtists entries limit ! i)
         \<and> (artist_count (getTopArtists entries limit ! j) = artist_count (getTopArtists entries limit ! i) \<longrightarrow>
               first_index (map artist entries) (artist_name (getTopArtists entries limit ! i))
                 < first_index (map artist entries) (artist_name (getTopArtists entries limit ! j))))"
proof -
  define l where "l = (case limit of None \<Rightarrow> 10 | Some l \<Rightarrow> l)"
  define gs where "gs = slice (ranked (map song_key entries)) 0 l"
  define ga where "ga = slice (ranked (map artist entries)) 0 l"
  have songs: "getTopSongs entries limit = map song_row gs"
    by (simp add: getTopSongs_ranked gs_def l_def)
  have artists: "getTopArtists entries limit = map artist_row ga"
    by (simp add: getTopArtists_ranked ga_def l_def)
  have mem: "\<forall>g\<in>set gs. fst g \<in> song_key ` set entries
            \<and> snd g = count_list (map song_key entries) (fst g)"
    using set_slice_subset [of "ranked (map song_key entries)" 0 l]
    by (auto simp: gs_def set_ranked)
  have ords: "\<forall>i j. i < j \<and> j < length gs \<longrightarrow>
            snd (gs ! j) \<le> snd (gs ! i)
            \<and> (snd (gs ! j) = snd (gs ! i) \<longrightarrow>
                  first_index (map song_key entries) (fst (gs ! i))
                    < first_index (map song_key entries) (fst (gs ! j)))"
    using ranks_nth [OF sorted_slice_ranked [of "map song_key entries" l]]
    by (simp add: gs_def)
  have orda: "\<forall>i j. i < j \<and> j < length ga \<longrightarrow>
            snd (ga ! j) \<le> snd (ga ! i)
            \<and> (snd (ga ! j) = snd (ga ! i) \<longrightarrow>
                  first_index (map artist entries) (fst (ga ! i))
                    < first_index (map artist entries) (fst (ga ! j)))"
    using ranks_nth [OF sorted_slice_ranked [of "map artist entries" l]]
    by (simp add: ga_def)
  have rows: "\<forall>i j. i < j \<and> j < length (getTopSongs entries limit) \<longrightarrow>
         song_count (getTopSongs entries limit ! j) \<le> song_count (getTopSongs entries limit ! i)"
    using ords by (simp add: songs song_row_def Let_def)
  have rowa: "\<forall>i j. i < j \<and> j < length (getTopArtists entries limit) \<longrightarrow>
         artist_count (getTopArtists entries limit ! j) \<le> artist_count (getTopArtists entries limit ! i)
         \<and> (artist_count (getTopArtists entries limit ! j) = artist_count (getTopArtists entries limit ! i) \<longrightarrow>
               first_index (map artist entries) (artist_name (getTopArtists entries limit ! i))
                 < first_index (map artist entries) (artist_name (getTopArtists entries limit ! j)))"
    using orda by (simp add: artists artist_row_def)
  show ?thesis
    using songs mem ords rows rowa by blast
qed

theorem rankings_order_witness:
  "getTopArtists [\<lparr>artist = ''A'', song = ''X'', ts = 1\<rparr>, \<lparr>artist = ''C'', song = ''Z'', ts = 2\<rparr>,
      \<lparr>artist = ''B'', song = ''Y'', ts = 3\<rparr>, \<lparr>artist = ''B'', song = ''Y'', ts = 4\<rparr>] (Some 3)
     = [\<lparr>artist_name = ''B'', artist_count = 2\<rparr>, \<lparr>artist_name = ''A'', artist_count = 1\<rparr>,
        \<lparr>artist_name = ''C'', artist_count = 1\<rparr>]
   \<and> first_index [''A'', ''C'', ''B'', ''B''] ''A'' < first_index [''A'', ''C'', ''B'', ''B''] ''C''"
proof -
  let ?es = "[\<lparr>artist = ''A'', song = ''X'', ts = 1\<rparr>, \<lparr>artist = ''C'', song = ''Z'', ts = 2\<rparr>,
      \<lparr>artist = ''B'', song = ''Y'', ts = 3\<rparr>, \<lparr>artist = ''B'', song = ''Y'', ts = 4\<rparr>]"
  have r: "getTopArtists ?es (Some 3)
     = [\<lparr>artist_name = ''B'', artist_count = 2\<rparr>, \<lparr>artist_name = ''A'', artist_count = 1\<rparr>,
        \<lparr>artist_name = ''C'', artist_count = 1\<rparr>]"
    by code_simp
  let ?R = "getTopArtists ?es (Some 3)"
  have "(1::nat) < 2 \<and> 2 < length ?R \<longrightarrow>
         artist_count (?R ! 2) \<le> artist_count (?R ! 1)
         \<and> (artist_count (?R ! 2) = artist_count (?R ! 1) \<longrightarrow>
               first_index (map artist ?es) (artist_name (?R ! 1))
                 < first_index (map artist ?es) (artist_name (?R ! 2)))"
    using rankings_order [of ?es "Some 3"] by blast
  then have "first_index (map artist ?es) ''A'' < first_index (map artist ?es) ''C''"
    unfolding r by simp
  then show ?thesis
    using r by simp
qed

subsection \<open>The heatmap\<close>









subsection \<open>The calendar\<close>
















subsection \<open>Hour keys\<close>

















subsection \<open>Hourly play counts\<close>






end
